theory Spec2Isabelle
  imports Main "HOL-Library.Sublist"
begin

section \<open>The setup script \<^verbatim>\<open>scripts/setup.sh\<close>\<close>

text \<open>
  The script is a straight line of simple commands and three \<^verbatim>\<open>if\<close> blocks, run by
  bash after \<^verbatim>\<open>set -e\<close>. The model keeps that shape: every command of the script is a
  value of \<open>cmd\<close>, \<open>run_cmd\<close> gives the effect and the exit status of one command, and
  the two combinators \<open>simple\<close> and \<open>if_then_else\<close> are the two places a command can
  stand in: as a statement of its own (where \<^verbatim>\<open>set -e\<close> applies) and as the condition
  of an \<^verbatim>\<open>if\<close> (where bash does not apply it).
\<close>

subsection \<open>The file system and the environment\<close>

text \<open>
  A path names a regular file (with its executable bit) or a directory, or nothing.
  Paths are the relative paths the script writes, read from its working directory.
\<close>

datatype entry = File bool | Dir

type_synonym filesystem = "string \<rightharpoonup> entry"

text \<open>
  What the script cannot decide itself is a parameter: which command names
  \<^verbatim>\<open>command -v\<close> resolves, the exit status of each installer, and the paths on which
  \<^verbatim>\<open>chmod\<close> is refused although they exist (the caller does not own them). The
  installers write the dependency tree and the lock file; they are taken not to touch
  the paths the script inspects.
\<close>

record env =
  resolvable :: "string \<Rightarrow> bool"
  yarn_install_status :: nat
  npm_install_status :: nat
  chmod_refused :: "string \<Rightarrow> bool"

subsection \<open>Commands\<close>

datatype cmd =
    Set_e
  | Echo string
  | Test_not_f string
  | Test_not_d string
  | Command_v string
  | Yarn_install
  | Npm_install
  | Chmod_x string
  | Exit nat

text \<open>Where a command stood when it ran: as a statement, or as the condition of an \<^verbatim>\<open>if\<close>.\<close>

datatype place = Statement | Condition

text \<open>
  The state of a run: the file system, the lines written to standard output, the
  commands executed so far in order (each with its place and its exit status), the
  \<^verbatim>\<open>errexit\<close> option that \<^verbatim>\<open>set -e\<close> turns on, the status of the last
  command (\<^verbatim>\<open>$?\<close>), and the status the shell has exited with, if it has.
\<close>

record sh =
  fs :: filesystem
  stdout :: "string list"
  executed :: "(cmd \<times> place \<times> nat) list"
  errexit :: bool
  last_status :: nat
  exited :: "nat option"

definition set_executable :: "entry \<Rightarrow> entry" where
  "set_executable x = (case x of File _ \<Rightarrow> File True | Dir \<Rightarrow> Dir)"

definition is_file :: "filesystem \<Rightarrow> string \<Rightarrow> bool" where
  "is_file f p = (case f p of Some (File _) \<Rightarrow> True | _ \<Rightarrow> False)"

definition is_dir :: "filesystem \<Rightarrow> string \<Rightarrow> bool" where
  "is_dir f p = (case f p of Some Dir \<Rightarrow> True | _ \<Rightarrow> False)"

definition present :: "filesystem \<Rightarrow> string \<Rightarrow> bool" where
  "present f p = (f p \<noteq> None)"

text \<open>
  \<^verbatim>\<open>chmod +x p\<close>: fails with status 1 when \<open>p\<close> does not exist or the change is
  refused, and sets the executable bit otherwise.
\<close>

definition chmod_x :: "env \<Rightarrow> string \<Rightarrow> filesystem \<Rightarrow> nat \<times> filesystem" where
  "chmod_x e p f =
     (case f p of
        None \<Rightarrow> (1, f)
      | Some x \<Rightarrow> if chmod_refused e p then (1, f) else (0, f(p \<mapsto> set_executable x)))"

text \<open>
  One command: its exit status and the state after it.
  \<^item> \<^verbatim>\<open>[ ! -f p ]\<close> succeeds unless \<open>p\<close> is a regular file; \<^verbatim>\<open>[ ! -d p ]\<close> succeeds
    unless \<open>p\<close> is a directory.
  \<^item> \<^verbatim>\<open>command -v c &> /dev/null\<close> succeeds when the name resolves, and prints nothing.
  \<^item> \<^verbatim>\<open>exit n\<close> ends the shell with status \<open>n\<close>.
\<close>

fun run_cmd :: "env \<Rightarrow> cmd \<Rightarrow> sh \<Rightarrow> nat \<times> sh" where
  "run_cmd e Set_e s = (0, s\<lparr>errexit := True\<rparr>)"
| "run_cmd e (Echo t) s = (0, s\<lparr>stdout := stdout s @ [t]\<rparr>)"
| "run_cmd e (Test_not_f p) s = (if is_file (fs s) p then 1 else 0, s)"
| "run_cmd e (Test_not_d p) s = (if is_dir (fs s) p then 1 else 0, s)"
| "run_cmd e (Command_v c) s = (if resolvable e c then 0 else 1, s)"
| "run_cmd e Yarn_install s = (yarn_install_status e, s)"
| "run_cmd e Npm_install s = (npm_install_status e, s)"
| "run_cmd e (Chmod_x p) s = (fst (chmod_x e p (fs s)), s\<lparr>fs := snd (chmod_x e p (fs s))\<rparr>)"
| "run_cmd e (Exit n) s = (n, s\<lparr>exited := Some n\<rparr>)"

definition record_cmd :: "cmd \<Rightarrow> place \<Rightarrow> nat \<Rightarrow> sh \<Rightarrow> sh" where
  "record_cmd c pl st s = s\<lparr>executed := executed s @ [(c, pl, st)], last_status := st\<rparr>"

text \<open>
  A command as a statement. Nothing runs once the shell has exited. With
  \<^verbatim>\<open>errexit\<close> on, a non-zero status ends the shell with that status.
\<close>

definition simple :: "env \<Rightarrow> cmd \<Rightarrow> sh \<Rightarrow> sh" where
  "simple e c s =
     (if exited s \<noteq> None then s
      else
        let (st, s1) = run_cmd e c s;
            s2 = record_cmd c Statement st s1
        in if st \<noteq> 0 \<and> errexit s2 \<and> exited s2 = None then s2\<lparr>exited := Some st\<rparr> else s2)"

text \<open>
  \<^verbatim>\<open>if c; then A; else B; fi\<close>. The condition runs whatever \<^verbatim>\<open>errexit\<close> says; status 0
  selects \<open>A\<close>. A block that runs no branch has status 0.
\<close>

definition if_then_else :: "env \<Rightarrow> cmd \<Rightarrow> (sh \<Rightarrow> sh) \<Rightarrow> (sh \<Rightarrow> sh) \<Rightarrow> sh \<Rightarrow> sh" where
  "if_then_else e c A B s =
     (if exited s \<noteq> None then s
      else
        let (st, s1) = run_cmd e c s;
            s2 = record_cmd c Condition st s1
        in if st = 0 then A s2 else B s2)"

definition skip :: "sh \<Rightarrow> sh" where
  "skip s = (if exited s \<noteq> None then s else s\<lparr>last_status := 0\<rparr>)"

definition if_then :: "env \<Rightarrow> cmd \<Rightarrow> (sh \<Rightarrow> sh) \<Rightarrow> sh \<Rightarrow> sh" where
  "if_then e c A = if_then_else e c A skip"

text \<open>A list of statements, run in order for as long as the shell has not exited.\<close>

fun block :: "(sh \<Rightarrow> sh) list \<Rightarrow> sh \<Rightarrow> sh" where
  "block [] s = s"
| "block (step # steps) s = (if exited s \<noteq> None then s else block steps (step s))"

subsection \<open>The text the script prints\<close>

text \<open>The symbols of the messages are written as their UTF-8 bytes.\<close>

definition msg_banner :: string where
  "msg_banner = [CHR 0xF0, CHR 0x9F, CHR 0x9A, CHR 0x80] @ '' Setting up Trace Documentation Site...''"

definition msg_error :: string where
  "msg_error = [CHR 0xE2, CHR 0x9D, CHR 0x8C]
     @ '' Error: Please run this script from the trace-docs directory''"

definition msg_warning :: string where
  "msg_warning = [CHR 0xE2, CHR 0x9A, CHR 0xA0, CHR 0xEF, CHR 0xB8, CHR 0x8F]
     @ ''  Warning: Trace repository not found at ../Trace''"

definition msg_warning2 :: string where
  "msg_warning2 = ''   Automation scripts may not work without it.''"

definition msg_installing :: string where
  "msg_installing = [CHR 0xF0, CHR 0x9F, CHR 0x93, CHR 0xA6] @ '' Installing Node.js dependencies...''"

definition msg_chmod :: string where
  "msg_chmod = [CHR 0xF0, CHR 0x9F, CHR 0x94, CHR 0xA7] @ '' Making Python scripts executable...''"

definition msg_complete :: string where
  "msg_complete = [CHR 0xE2, CHR 0x9C, CHR 0xA8] @ '' Setup complete!''"

definition msg_commands :: string where
  "msg_commands = [CHR 0xF0, CHR 0x9F, CHR 0x93, CHR 0x8B] @ '' Available commands:''"

definition msg_ready :: string where
  "msg_ready = [CHR 0xF0, CHR 0x9F, CHR 0x8E, CHR 0x89]
     @ '' Ready to go! Run '' @ [CHR 0x27] @ ''npm run dev'' @ [CHR 0x27] @ '' to start.''"

definition msg_dev :: string where
  "msg_dev = ''   npm run dev                    - Start development server''"

definition msg_build :: string where
  "msg_build = ''   npm run build                  - Build for production''"

definition msg_generate_api :: string where
  "msg_generate_api = ''   npm run docs:generate-api      - Generate API documentation''"

definition msg_convert_notebooks :: string where
  "msg_convert_notebooks = ''   npm run docs:convert-notebooks - Convert Jupyter notebooks''"

definition msg_generate_all :: string where
  "msg_generate_all = ''   npm run docs:generate-all      - Run all generators''"

subsection \<open>The script\<close>

definition start :: "filesystem \<Rightarrow> sh" where
  "start f = \<lparr>fs = f, stdout = [], executed = [], errexit = False, last_status = 0, exited = None\<rparr>"

definition setup_sh :: "env \<Rightarrow> filesystem \<Rightarrow> sh" where
  "setup_sh e f = block
     [ simple e Set_e,
       simple e (Echo msg_banner),
       simple e (Echo ''''),
       if_then e (Test_not_f ''package.json'')
         (block [ simple e (Echo msg_error),
                  simple e (Exit 1) ]),
       if_then e (Test_not_d ''../Trace'')
         (block [ simple e (Echo msg_warning),
                  simple e (Echo msg_warning2),
                  simple e (Echo '''') ]),
       simple e (Echo msg_installing),
       if_then_else e (Command_v ''yarn'')
         (simple e Yarn_install)
         (simple e Npm_install),
       simple e (Echo msg_chmod),
       simple e (Chmod_x ''scripts/generate_api_docs.py''),
       simple e (Chmod_x ''scripts/convert_notebooks.py''),
       simple e (Echo ''''),
       simple e (Echo msg_complete),
       simple e (Echo ''''),
       simple e (Echo msg_commands),
       simple e (Echo msg_dev),
       simple e (Echo msg_build),
       simple e (Echo msg_generate_api),
       simple e (Echo msg_convert_notebooks),
       simple e (Echo msg_generate_all),
       simple e (Echo ''''),
       simple e (Echo msg_ready) ]
     (start f)"

text \<open>
  The status the script ends with: the one it exited with, or the status of its last
  command when it ran to its end.
\<close>

definition exit_status :: "sh \<Rightarrow> nat" where
  "exit_status s = (case exited s of Some n \<Rightarrow> n | None \<Rightarrow> last_status s)"

definition commands_run :: "sh \<Rightarrow> cmd list" where
  "commands_run s = map fst (executed s)"

subsection \<open>Notions the properties are stated with\<close>

text \<open>The installer the script selects, and the status that installer ends with.\<close>

definition install_cmd :: "env \<Rightarrow> cmd" where
  "install_cmd e = (if resolvable e ''yarn'' then Yarn_install else Npm_install)"

definition install_status :: "env \<Rightarrow> nat" where
  "install_status e =
     (if resolvable e ''yarn'' then yarn_install_status e else npm_install_status e)"

text \<open>\<^verbatim>\<open>chmod +x p\<close> succeeds exactly when \<open>p\<close> exists and the change is not refused.\<close>

definition chmod_ok :: "env \<Rightarrow> filesystem \<Rightarrow> string \<Rightarrow> bool" where
  "chmod_ok e f p = (present f p \<and> \<not> chmod_refused e p)"

text \<open>The lines printed after both \<^verbatim>\<open>chmod\<close> commands, in order.\<close>

definition closing_lines :: "string list" where
  "closing_lines =
     ['''', msg_complete, '''', msg_commands, msg_dev, msg_build, msg_generate_api,
      msg_convert_notebooks, msg_generate_all, '''', msg_ready]"

text \<open>
  Two readings of "the run stops at the first failure, and the script then ends with a
  non-zero status \<open>st\<close>", over the log of a run. In the first, any command with a
  non-zero status counts as the failure. In the second, only a command that stood as a
  statement does. In both, nothing at all may follow the failure in the log.
\<close>

fun stops_at_first_failure :: "(cmd \<times> place \<times> nat) list \<Rightarrow> nat \<Rightarrow> bool" where
  "stops_at_first_failure [] st = True"
| "stops_at_first_failure ((c, pl, n) # rest) st =
     (if n \<noteq> 0 then rest = [] \<and> st \<noteq> 0 else stops_at_first_failure rest st)"

fun stops_at_first_failed_statement :: "(cmd \<times> place \<times> nat) list \<Rightarrow> nat \<Rightarrow> bool" where
  "stops_at_first_failed_statement [] st = True"
| "stops_at_first_failed_statement ((c, pl, n) # rest) st =
     (if pl = Statement \<and> n \<noteq> 0 then rest = [] \<and> st \<noteq> 0
      else stops_at_first_failed_statement rest st)"

text \<open>
  Concrete settings. A machine that has \<^verbatim>\<open>npm\<close> and no \<^verbatim>\<open>yarn\<close>, and one that has
  both; on either the installers succeed and no \<^verbatim>\<open>chmod\<close> is refused. A checkout of
  the site with both helper scripts and no \<^verbatim>\<open>../Trace\<close> beside it, and the same
  checkout without the second helper script.
\<close>

definition npm_machine :: env where
  "npm_machine = \<lparr>resolvable = (\<lambda>c. c = ''npm''), yarn_install_status = 0,
                   npm_install_status = 0, chmod_refused = (\<lambda>p. False)\<rparr>"

definition yarn_machine :: env where
  "yarn_machine = \<lparr>resolvable = (\<lambda>c. c = ''yarn'' \<or> c = ''npm''), yarn_install_status = 0,
                    npm_install_status = 0, chmod_refused = (\<lambda>p. False)\<rparr>"

definition checkout :: filesystem where
  "checkout = [''package.json'' \<mapsto> File False,
               ''scripts/generate_api_docs.py'' \<mapsto> File False,
               ''scripts/convert_notebooks.py'' \<mapsto> File False]"

definition partial_checkout :: filesystem where
  "partial_checkout = [''package.json'' \<mapsto> File False,
                       ''scripts/generate_api_docs.py'' \<mapsto> File False]"

section \<open>The site's components\<close>

subsection \<open>Element trees\<close>

text \<open>
  What a component returns: a tree of text, host elements (lower-case tags), imported
  components (capitalised tags, opaque here) and fragments. Props are the attribute
  strings as written. JSX text is normalised the way the JSX compiler does it: a text
  that spans lines loses the line breaks and the indentation around them, and comments
  in braces leave no child.
\<close>

datatype node =
    Text string
  | Element string "(string \<times> string) list" "node list"
  | Component string "(string \<times> string) list" "node list"
  | Fragment "node list"

subsection \<open>The layout options \<^verbatim>\<open>lib/layout.shared.tsx\<close>\<close>

text \<open>
  Of the framework's \<^verbatim>\<open>BaseLayoutProps\<close> the fields the object literal sets. A link
  entry sets \<^verbatim>\<open>text\<close> and \<^verbatim>\<open>url\<close>, and either \<^verbatim>\<open>active\<close> or \<^verbatim>\<open>external\<close>.
\<close>

record link_item =
  "text" :: string
  url :: string
  active :: "string option"
  external :: "bool option"

record nav_options =
  title :: node

record base_layout_props =
  nav :: nav_options
  links :: "link_item list"

subsection \<open>The state the operations of the repository run in\<close>

text \<open>
  Every call of \<^verbatim>\<open>baseOptions\<close> evaluates an object literal, which allocates a new
  object. \<open>configs\<close> is the store of these objects, an object's address being its
  index. \<open>disk\<close> and \<open>console\<close> are what the setup script works on.
\<close>

record system =
  configs :: "base_layout_props list"
  disk :: filesystem
  console :: "string list"

definition lookup :: "system \<Rightarrow> nat \<Rightarrow> base_layout_props option" where
  "lookup s a = (if a < length (configs s) then Some (configs s ! a) else None)"

definition baseOptions :: "system \<Rightarrow> nat \<times> system" where
  "baseOptions s =
     (let obj =
        \<lparr> nav = \<lparr> title =
              Fragment
                [ Element ''svg''
                    [(''width'', ''24''),
                     (''height'', ''24''),
                     (''viewBox'', ''0 0 24 24''),
                     (''xmlns'', ''http://www.w3.org/2000/svg''),
                     (''aria-label'', ''Trace Logo''),
                     (''fill'', ''none'')]
                    [ Element ''path''
                        [(''d'', ''M3 12 L9 6 L15 12 L21 6''),
                         (''stroke'', ''currentColor''),
                         (''strokeWidth'', ''2''),
                         (''strokeLinecap'', ''round''),
                         (''strokeLinejoin'', ''round'')] [],
                      Element ''path''
                        [(''d'', ''M3 18 L9 12 L15 18 L21 12''),
                         (''stroke'', ''currentColor''),
                         (''strokeWidth'', ''2''),
                         (''strokeLinecap'', ''round''),
                         (''strokeLinejoin'', ''round''),
                         (''opacity'', ''0.5'')] [] ],
                  Element ''span'' [(''className'', ''font-bold'')]
                    [ Text ''Trace2'' ] ] \<rparr>,
          links =
            [ \<lparr> text = ''Documentation'', url = ''/docs'',
                active = Some ''nested-url'', external = None \<rparr>,
              \<lparr> text = ''GitHub'', url = ''https://github.com/AgentOpt/OpenTrace'',
                active = None, external = Some True \<rparr>,
              \<lparr> text = ''Paper'', url = ''https://arxiv.org/abs/2406.16218'',
                active = None, external = Some True \<rparr> ] \<rparr>
      in (length (configs s), s\<lparr>configs := configs s @ [obj]\<rparr>))"

subsection \<open>The home page \<^verbatim>\<open>app/(home)/page.tsx\<close>\<close>


text \<open>The component takes no props and returns its tree.\<close>

definition HomePage :: "system \<Rightarrow> node \<times> system" where
  "HomePage s =
   (
    Element ''main'' [(''className'', ''flex flex-1 flex-col'')]
      [ Element ''section''
          [(''className'', ''flex flex-col items-center justify-center px-4 py-24 text-center bg-gradient-to-b from-fd-background to-fd-muted/20'')]
          [ Element ''div''
              [(''className'', ''mb-6 inline-flex items-center gap-2 rounded-full border border-fd-border bg-fd-muted/50 px-4 py-2 text-sm backdrop-blur'')]
              [ Component ''Sparkles'' [(''className'', ''h-4 w-4 text-fd-primary'')] [],
                Element ''span'' []
                  [ Text ''AutoDiff for AI Agents'' ] ],
            Element ''h1''
              [(''className'', ''mb-6 max-w-4xl text-5xl font-extrabold tracking-tight sm:text-6xl md:text-7xl bg-gradient-to-r from-fd-foreground to-fd-muted-foreground bg-clip-text text-transparent'')]
              [ Text ''End-to-end Optimization for AI Systems'' ],
            Element ''p''
              [(''className'', ''mb-10 max-w-2xl text-lg text-fd-muted-foreground sm:text-xl'')]
              [ Text ''Train AI agents with general feedback like rewards, natural language, or compiler errors. Write Python code directly and optimize it like training neural networks.'' ],
            Element ''div'' [(''className'', ''flex flex-col gap-4 sm:flex-row'')]
              [ Component ''Link''
                  [(''href'', ''/docs''),
                   (''className'', ''group inline-flex items-center gap-2 rounded-lg bg-fd-primary px-6 py-3 text-fd-primary-foreground font-semibold shadow-lg hover:bg-fd-primary/90 transition-all'')]
                  [ Text ''Get Started'',
                    Component ''ArrowRight''
                      [(''className'', ''h-4 w-4 transition-transform group-hover:translate-x-1'')] [] ],
                Component ''Link''
                  [(''href'', ''https://github.com/AgentOpt/Trace''),
                   (''target'', ''_blank''),
                   (''className'', ''inline-flex items-center gap-2 rounded-lg border border-fd-border bg-fd-background px-6 py-3 font-semibold hover:bg-fd-muted/50 transition-all'')]
                  [ Component ''Github'' [(''className'', ''h-4 w-4'')] [],
                    Text ''View on GitHub'' ] ],
            Element ''div'' [(''className'', ''mt-16 grid grid-cols-2 gap-8 sm:grid-cols-4'')]
              [ Element ''div'' [(''className'', ''flex flex-col items-center'')]
                  [ Element ''div'' [(''className'', ''text-3xl font-bold text-fd-primary'')]
                      [ Text ''3'' ],
                    Element ''div'' [(''className'', ''text-sm text-fd-muted-foreground'')]
                      [ Text ''Optimizers'' ] ],
                Element ''div'' [(''className'', ''flex flex-col items-center'')]
                  [ Element ''div'' [(''className'', ''text-3xl font-bold text-fd-primary'')]
                      [ Text ''PyTorch-like'' ],
                    Element ''div'' [(''className'', ''text-sm text-fd-muted-foreground'')]
                      [ Text ''API'' ] ],
                Element ''div'' [(''className'', ''flex flex-col items-center'')]
                  [ Element ''div'' [(''className'', ''text-3xl font-bold text-fd-primary'')]
                      [ Text ''NeurIPS'' ],
                    Element ''div'' [(''className'', ''text-sm text-fd-muted-foreground'')]
                      [ Text ''2024'' ] ],
                Element ''div'' [(''className'', ''flex flex-col items-center'')]
                  [ Element ''div'' [(''className'', ''text-3xl font-bold text-fd-primary'')]
                      [ Text ''Open'' ],
                    Element ''div'' [(''className'', ''text-sm text-fd-muted-foreground'')]
                      [ Text ''Source'' ] ] ] ],
        Element ''section''
          [(''className'', ''border-t border-fd-border bg-fd-background px-4 py-20'')]
          [ Element ''div'' [(''className'', ''mx-auto max-w-6xl'')]
              [ Element ''div'' [(''className'', ''text-center mb-12'')]
                  [ Element ''h2'' [(''className'', ''text-3xl font-bold mb-4'')]
                      [ Text ''Familiar PyTorch-like Syntax'' ],
                    Element ''p'' [(''className'', ''text-fd-muted-foreground text-lg'')]
                      [ Text ''Define trainable parameters and optimize them with a simple, intuitive API'' ] ],
                Element ''div''
                  [(''className'', ''rounded-xl border border-fd-border bg-fd-card overflow-hidden shadow-2xl'')]
                  [ Element ''div''
                      [(''className'', ''bg-fd-muted/50 px-4 py-2 border-b border-fd-border flex items-center gap-2'')]
                      [ Element ''div'' [(''className'', ''flex gap-1.5'')]
                          [ Element ''div''
                              [(''className'', ''h-3 w-3 rounded-full bg-red-500/80'')] [],
                            Element ''div''
                              [(''className'', ''h-3 w-3 rounded-full bg-yellow-500/80'')] [],
                            Element ''div''
                              [(''className'', ''h-3 w-3 rounded-full bg-green-500/80'')] [] ],
                        Element ''span''
                          [(''className'', ''text-xs text-fd-muted-foreground ml-2'')]
                          [ Text ''quickstart.py'' ] ],
                    Element ''pre''
                      [(''className'', ''p-6 overflow-x-auto text-sm leading-relaxed'')]
                      [ Element ''code'' []
                          [ Text (''from opto.trace import node, bundle'' @ [CHR 0x0A] @ ''from opto.optimizers import OptoPrime'' @ [CHR 0x0A, CHR 0x0A] @ ''# Define trainable function'' @ [CHR 0x0A] @ ''@bundle(trainable=True)'' @ [CHR 0x0A] @ ''def strange_sort_list(lst):'' @ [CHR 0x0A] @ ''    '' @ [CHR 0x27, CHR 0x27, CHR 0x27] @ ''Sort list in strange order: min, max, min, max...'' @ [CHR 0x27, CHR 0x27, CHR 0x27, CHR 0x0A] @ ''    return sorted(lst)'' @ [CHR 0x0A, CHR 0x0A] @ ''# Optimize with feedback'' @ [CHR 0x0A] @ ''optimizer = OptoPrime(strange_sort_list.parameters())'' @ [CHR 0x0A, CHR 0x0A] @ ''for epoch in range(5):'' @ [CHR 0x0A] @ ''    output = strange_sort_list([1, 2, 3, 4])'' @ [CHR 0x0A] @ ''    feedback = check_correctness(output)'' @ [CHR 0x0A] @ ''    '' @ [CHR 0x0A] @ ''    optimizer.zero_feedback()'' @ [CHR 0x0A] @ ''    optimizer.backward(output, feedback)'' @ [CHR 0x0A] @ ''    optimizer.step()  # LLM updates the function!'') ] ] ] ] ],
        Element ''section''
          [(''className'', ''border-t border-fd-border bg-fd-muted/20 px-4 py-20'')]
          [ Element ''div'' [(''className'', ''mx-auto max-w-6xl'')]
              [ Element ''div'' [(''className'', ''text-center mb-16'')]
                  [ Element ''h2'' [(''className'', ''text-3xl font-bold mb-4'')]
                      [ Text ''Why Trace?'' ],
                    Element ''p'' [(''className'', ''text-fd-muted-foreground text-lg'')]
                      [ Text ''A new paradigm for training AI systems end-to-end'' ] ],
                Element ''div'' [(''className'', ''grid gap-8 md:grid-cols-2 lg:grid-cols-3'')]
                  [ Element ''div''
                      [(''className'', ''rounded-lg border border-fd-border bg-fd-card p-6 shadow-sm hover:shadow-lg transition-shadow'')]
                      [ Element ''div''
                          [(''className'', ''mb-4 inline-flex h-12 w-12 items-center justify-center rounded-lg bg-fd-primary/10'')]
                          [ Component ''GitBranch'' [(''className'', ''h-6 w-6 text-fd-primary'')] [] ],
                        Element ''h3'' [(''className'', ''mb-2 text-xl font-semibold'')]
                          [ Text ''Computation Graph'' ],
                        Element ''p'' [(''className'', ''text-fd-muted-foreground'')]
                          [ Text ''Automatically traces execution to build a computation graph, just like autograd but for AI agents.'' ] ],
                    Element ''div''
                      [(''className'', ''rounded-lg border border-fd-border bg-fd-card p-6 shadow-sm hover:shadow-lg transition-shadow'')]
                      [ Element ''div''
                          [(''className'', ''mb-4 inline-flex h-12 w-12 items-center justify-center rounded-lg bg-fd-primary/10'')]
                          [ Component ''Code2'' [(''className'', ''h-6 w-6 text-fd-primary'')] [] ],
                        Element ''h3'' [(''className'', ''mb-2 text-xl font-semibold'')]
                          [ Text ''Write Real Code'' ],
                        Element ''p'' [(''className'', ''text-fd-muted-foreground'')]
                          [ Text ''No need to wrap functions in strings. Write actual executable Python code with full IDE support.'' ] ],
                    Element ''div''
                      [(''className'', ''rounded-lg border border-fd-border bg-fd-card p-6 shadow-sm hover:shadow-lg transition-shadow'')]
                      [ Element ''div''
                          [(''className'', ''mb-4 inline-flex h-12 w-12 items-center justify-center rounded-lg bg-fd-primary/10'')]
                          [ Component ''Zap'' [(''className'', ''h-6 w-6 text-fd-primary'')] [] ],
                        Element ''h3'' [(''className'', ''mb-2 text-xl font-semibold'')]
                          [ Text ''Multiple Optimizers'' ],
                        Element ''p'' [(''className'', ''text-fd-muted-foreground'')]
                          [ Text ''Choose from OptoPrime, OPRO, or TextGrad. Switch optimizers with a single line of code.'' ] ],
                    Element ''div''
                      [(''className'', ''rounded-lg border border-fd-border bg-fd-card p-6 shadow-sm hover:shadow-lg transition-shadow'')]
                      [ Element ''div''
                          [(''className'', ''mb-4 inline-flex h-12 w-12 items-center justify-center rounded-lg bg-fd-primary/10'')]
                          [ Component ''BookOpen'' [(''className'', ''h-6 w-6 text-fd-primary'')] [] ],
                        Element ''h3'' [(''className'', ''mb-2 text-xl font-semibold'')]
                          [ Text ''Rich Feedback'' ],
                        Element ''p'' [(''className'', ''text-fd-muted-foreground'')]
                          [ Text ''Use any feedback: numerical rewards, natural language, compiler errors, or test results.'' ] ],
                    Element ''div''
                      [(''className'', ''rounded-lg border border-fd-border bg-fd-card p-6 shadow-sm hover:shadow-lg transition-shadow'')]
                      [ Element ''div''
                          [(''className'', ''mb-4 inline-flex h-12 w-12 items-center justify-center rounded-lg bg-fd-primary/10'')]
                          [ Component ''Sparkles'' [(''className'', ''h-6 w-6 text-fd-primary'')] [] ],
                        Element ''h3'' [(''className'', ''mb-2 text-xl font-semibold'')]
                          [ Text ''LLM Backend Agnostic'' ],
                        Element ''p'' [(''className'', ''text-fd-muted-foreground'')]
                          [ Text ''Works with OpenAI, Anthropic, or any LiteLLM-supported provider. Easy API key management.'' ] ],
                    Element ''div''
                      [(''className'', ''rounded-lg border border-fd-border bg-fd-card p-6 shadow-sm hover:shadow-lg transition-shadow'')]
                      [ Element ''div''
                          [(''className'', ''mb-4 inline-flex h-12 w-12 items-center justify-center rounded-lg bg-fd-primary/10'')]
                          [ Component ''Github'' [(''className'', ''h-6 w-6 text-fd-primary'')] [] ],
                        Element ''h3'' [(''className'', ''mb-2 text-xl font-semibold'')]
                          [ Text ''Research-Backed'' ],
                        Element ''p'' [(''className'', ''text-fd-muted-foreground'')]
                          [ Text ''Published at NeurIPS 2024. Battle-tested on NLP, robotics, and multi-agent tasks.'' ] ] ] ] ],
        Element ''section''
          [(''className'', ''border-t border-fd-border bg-fd-background px-4 py-20'')]
          [ Element ''div'' [(''className'', ''mx-auto max-w-4xl text-center'')]
              [ Element ''h2'' [(''className'', ''text-3xl font-bold mb-6'')]
                  [ Text ''Ready to optimize your AI agents?'' ],
                Element ''p'' [(''className'', ''text-fd-muted-foreground text-lg mb-8'')]
                  [ Text ''Install Trace and start building self-improving AI systems in minutes.'' ],
                Element ''div''
                  [(''className'', ''mb-8 rounded-lg border border-fd-border bg-fd-muted/50 p-4 font-mono text-sm'')]
                  [ Text ''pip install trace-opt'' ],
                Element ''div''
                  [(''className'', ''flex flex-col gap-4 sm:flex-row sm:justify-center'')]
                  [ Component ''Link''
                      [(''href'', ''/docs/getting-started''),
                       (''className'', ''inline-flex items-center justify-center gap-2 rounded-lg bg-fd-primary px-6 py-3 text-fd-primary-foreground font-semibold hover:bg-fd-primary/90 transition-all'')]
                      [ Text ''Read the Docs'',
                        Component ''ArrowRight'' [(''className'', ''h-4 w-4'')] [] ],
                    Component ''Link''
                      [(''href'', ''/docs/tutorials''),
                       (''className'', ''inline-flex items-center justify-center gap-2 rounded-lg border border-fd-border px-6 py-3 font-semibold hover:bg-fd-muted/50 transition-all'')]
                      [ Text ''View Tutorials'' ] ] ] ] ],
    s)"

text \<open>
  The sources hold a second text of the same component, a revision with another
  heading, the code sample highlighted span by span, and other link targets.
\<close>

definition HomePage_rev :: "system \<Rightarrow> node \<times> system" where
  "HomePage_rev s =
   (
    Element ''main'' [(''className'', ''flex flex-1 flex-col'')]
      [ Element ''section''
          [(''className'', ''flex flex-col items-center justify-center px-4 py-24 text-center bg-gradient-to-b from-fd-background to-fd-muted/20'')]
          [ Element ''div''
              [(''className'', ''mb-6 inline-flex items-center gap-2 rounded-full border border-fd-border bg-fd-muted/50 px-4 py-2 text-sm backdrop-blur'')]
              [ Component ''Sparkles'' [(''className'', ''h-4 w-4 text-fd-primary'')] [],
                Element ''span'' []
                  [ Text ''AutoDiff for AI Agents'' ] ],
            Element ''h1''
              [(''className'', ''mb-6 max-w-5xl text-4xl font-extrabold tracking-tight sm:text-5xl md:text-6xl lg:text-7xl bg-gradient-to-r from-pink-400 via-fuchsia-500 to-purple-500 bg-clip-text text-transparent leading-tight'')]
              [ Text ''Welcome to the Era of Visual Agents with Trace2'' ],
            Element ''p''
              [(''className'', ''mb-10 max-w-2xl text-lg text-fd-muted-foreground sm:text-xl'')]
              [ Text ''Train AI agents with general feedback like rewards, natural language, or compiler errors. Write Python code directly and optimize it like training neural networks.'' ],
            Element ''div'' [(''className'', ''flex flex-col gap-4 sm:flex-row'')]
              [ Component ''Link''
                  [(''href'', ''/docs''),
                   (''className'', ''group inline-flex items-center gap-2 rounded-lg bg-fd-primary px-6 py-3 text-fd-primary-foreground font-semibold shadow-lg hover:bg-fd-primary/90 transition-all'')]
                  [ Text ''Get Started'',
                    Component ''ArrowRight''
                      [(''className'', ''h-4 w-4 transition-transform group-hover:translate-x-1'')] [] ],
                Component ''Link''
                  [(''href'', ''https://github.com/AgentOpt/OpenTrace''),
                   (''target'', ''_blank''),
                   (''className'', ''inline-flex items-center gap-2 rounded-lg border border-fd-border bg-fd-background px-6 py-3 font-semibold hover:bg-fd-muted/50 transition-all'')]
                  [ Component ''Github'' [(''className'', ''h-4 w-4'')] [],
                    Text ''View on GitHub'' ] ],
            Element ''div'' [(''className'', ''mt-16 grid grid-cols-2 gap-8 sm:grid-cols-4'')]
              [ Element ''div'' [(''className'', ''flex flex-col items-center'')]
                  [ Element ''div'' [(''className'', ''text-3xl font-bold text-fd-primary'')]
                      [ Text ''3'' ],
                    Element ''div'' [(''className'', ''text-sm text-fd-muted-foreground'')]
                      [ Text ''Optimizers'' ] ],
                Element ''div'' [(''className'', ''flex flex-col items-center'')]
                  [ Element ''div'' [(''className'', ''text-3xl font-bold text-fd-primary'')]
                      [ Text ''PyTorch-like'' ],
                    Element ''div'' [(''className'', ''text-sm text-fd-muted-foreground'')]
                      [ Text ''API'' ] ],
                Element ''div'' [(''className'', ''flex flex-col items-center'')]
                  [ Element ''div'' [(''className'', ''text-3xl font-bold text-fd-primary'')]
                      [ Text ''NeurIPS'' ],
                    Element ''div'' [(''className'', ''text-sm text-fd-muted-foreground'')]
                      [ Text ''2024'' ] ],
                Element ''div'' [(''className'', ''flex flex-col items-center'')]
                  [ Element ''div'' [(''className'', ''text-3xl font-bold text-fd-primary'')]
                      [ Text ''Open'' ],
                    Element ''div'' [(''className'', ''text-sm text-fd-muted-foreground'')]
                      [ Text ''Source'' ] ] ] ],
        Element ''section''
          [(''className'', ''border-t border-fd-border bg-fd-background px-4 py-20'')]
          [ Element ''div'' [(''className'', ''mx-auto max-w-6xl'')]
              [ Element ''div'' [(''className'', ''text-center mb-12'')]
                  [ Element ''h2'' [(''className'', ''text-3xl font-bold mb-4'')]
                      [ Text ''Familiar PyTorch-like Syntax'' ],
                    Element ''p'' [(''className'', ''text-fd-muted-foreground text-lg'')]
                      [ Text ''Define trainable parameters and optimize them with a simple, intuitive API'' ] ],
                Element ''div''
                  [(''className'', ''rounded-xl border border-fd-border bg-[#0d1117] overflow-hidden shadow-2xl'')]
                  [ Element ''div''
                      [(''className'', ''bg-[#161b22] px-4 py-2 border-b border-[#30363d] flex items-center gap-2'')]
                      [ Element ''div'' [(''className'', ''flex gap-1.5'')]
                          [ Element ''div''
                              [(''className'', ''h-3 w-3 rounded-full bg-red-500/80'')] [],
                            Element ''div''
                              [(''className'', ''h-3 w-3 rounded-full bg-yellow-500/80'')] [],
                            Element ''div''
                              [(''className'', ''h-3 w-3 rounded-full bg-green-500/80'')] [] ],
                        Element ''span'' [(''className'', ''text-xs text-[#8b949e] ml-2'')]
                          [ Text ''quickstart.py'' ] ],
                    Element ''pre''
                      [(''className'', ''p-6 overflow-x-auto text-sm leading-relaxed'')]
                      [ Element ''code'' [(''className'', ''language-python'')]
                          [ Element ''span'' [(''className'', ''text-[#ff7b72]'')]
                              [ Text ''from'' ],
                            Text '' '',
                            Element ''span'' [(''className'', ''text-[#d2a8ff]'')]
                              [ Text ''opto.trace'' ],
                            Text '' '',
                            Element ''span'' [(''className'', ''text-[#ff7b72]'')]
                              [ Text ''import'' ],
                            Text '' '',
                            Element ''span'' [(''className'', ''text-[#d2a8ff]'')]
                              [ Text ''node'' ],
                            Element ''span'' [(''className'', ''text-[#c9d1d9]'')]
                              [ Text '','' ],
                            Text '' '',
                            Element ''span'' [(''className'', ''text-[#d2a8ff]'')]
                              [ Text ''bundle'' ],
                            Text [CHR 0x0A],
                            Element ''span'' [(''className'', ''text-[#ff7b72]'')]
                              [ Text ''from'' ],
                            Text '' '',
                            Element ''span'' [(''className'', ''text-[#d2a8ff]'')]
                              [ Text ''opto.optimizers'' ],
                            Text '' '',
                            Element ''span'' [(''className'', ''text-[#ff7b72]'')]
                              [ Text ''import'' ],
                            Text '' '',
                            Element ''span'' [(''className'', ''text-[#d2a8ff]'')]
                              [ Text ''OptoPrime'' ],
                            Text [CHR 0x0A],
                            Text [CHR 0x0A],
                            Element ''span'' [(''className'', ''text-[#8b949e]'')]
                              [ Text ''# Define trainable function'' ],
                            Text [CHR 0x0A],
                            Element ''span'' [(''className'', ''text-[#d2a8ff]'')]
                              [ Text ''@bundle'' ],
                            Element ''span'' [(''className'', ''text-[#c9d1d9]'')]
                              [ Text ''('' ],
                            Element ''span'' [(''className'', ''text-[#79c0ff]'')]
                              [ Text ''trainable'' ],
                            Element ''span'' [(''className'', ''text-[#ff7b72]'')]
                              [ Text ''='' ],
                            Element ''span'' [(''className'', ''text-[#79c0ff]'')]
                              [ Text ''True'' ],
                            Element ''span'' [(''className'', ''text-[#c9d1d9]'')]
                              [ Text '')'' ],
                            Text [CHR 0x0A],
                            Element ''span'' [(''className'', ''text-[#ff7b72]'')]
                              [ Text ''def'' ],
                            Text '' '',
                            Element ''span'' [(''className'', ''text-[#d2a8ff]'')]
                              [ Text ''strange_sort_list'' ],
                            Element ''span'' [(''className'', ''text-[#c9d1d9]'')]
                              [ Text ''('' ],
                            Element ''span'' [(''className'', ''text-[#ffa657]'')]
                              [ Text ''lst'' ],
                            Element ''span'' [(''className'', ''text-[#c9d1d9]'')]
                              [ Text ''):'' ],
                            Text [CHR 0x0A],
                            Element ''span'' [(''className'', ''text-[#c9d1d9]'')]
                              [ Text ''    '' ],
                            Element ''span'' [(''className'', ''text-[#a5d6ff]'')]
                              [ Text ([CHR 0x27, CHR 0x27, CHR 0x27] @ ''Sort list in strange order: min, max, min, max...'' @ [CHR 0x27, CHR 0x27, CHR 0x27]) ],
                            Text [CHR 0x0A],
                            Element ''span'' [(''className'', ''text-[#c9d1d9]'')]
                              [ Text ''    '' ],
                            Element ''span'' [(''className'', ''text-[#ff7b72]'')]
                              [ Text ''return'' ],
                            Text '' '',
                            Element ''span'' [(''className'', ''text-[#d2a8ff]'')]
                              [ Text ''sorted'' ],
                            Element ''span'' [(''className'', ''text-[#c9d1d9]'')]
                              [ Text ''('' ],
                            Element ''span'' [(''className'', ''text-[#ffa657]'')]
                              [ Text ''lst'' ],
                            Element ''span'' [(''className'', ''text-[#c9d1d9]'')]
                              [ Text '')'' ],
                            Text [CHR 0x0A],
                            Text [CHR 0x0A],
                            Element ''span'' [(''className'', ''text-[#8b949e]'')]
                              [ Text ''# Optimize with feedback'' ],
                            Text [CHR 0x0A],
                            Element ''span'' [(''className'', ''text-[#ffa657]'')]
                              [ Text ''optimizer'' ],
                            Text '' '',
                            Element ''span'' [(''className'', ''text-[#ff7b72]'')]
                              [ Text ''='' ],
                            Text '' '',
                            Element ''span'' [(''className'', ''text-[#d2a8ff]'')]
                              [ Text ''OptoPrime'' ],
                            Element ''span'' [(''className'', ''text-[#c9d1d9]'')]
                              [ Text ''('' ],
                            Element ''span'' [(''className'', ''text-[#ffa657]'')]
                              [ Text ''strange_sort_list'' ],
                            Element ''span'' [(''className'', ''text-[#c9d1d9]'')]
                              [ Text ''.'' ],
                            Element ''span'' [(''className'', ''text-[#d2a8ff]'')]
                              [ Text ''parameters'' ],
                            Element ''span'' [(''className'', ''text-[#c9d1d9]'')]
                              [ Text ''())'' ],
                            Text [CHR 0x0A],
                            Text [CHR 0x0A],
                            Element ''span'' [(''className'', ''text-[#ff7b72]'')]
                              [ Text ''for'' ],
                            Text '' '',
                            Element ''span'' [(''className'', ''text-[#ffa657]'')]
                              [ Text ''epoch'' ],
                            Text '' '',
                            Element ''span'' [(''className'', ''text-[#ff7b72]'')]
                              [ Text ''in'' ],
                            Text '' '',
                            Element ''span'' [(''className'', ''text-[#d2a8ff]'')]
                              [ Text ''range'' ],
                            Element ''span'' [(''className'', ''text-[#c9d1d9]'')]
                              [ Text ''('' ],
                            Element ''span'' [(''className'', ''text-[#a5d6ff]'')]
                              [ Text ''5'' ],
                            Element ''span'' [(''className'', ''text-[#c9d1d9]'')]
                              [ Text ''):'' ],
                            Text [CHR 0x0A],
                            Element ''span'' [(''className'', ''text-[#c9d1d9]'')]
                              [ Text ''    '' ],
                            Element ''span'' [(''className'', ''text-[#ffa657]'')]
                              [ Text ''output'' ],
                            Text '' '',
                            Element ''span'' [(''className'', ''text-[#ff7b72]'')]
                              [ Text ''='' ],
                            Text '' '',
                            Element ''span'' [(''className'', ''text-[#d2a8ff]'')]
                              [ Text ''strange_sort_list'' ],
                            Element ''span'' [(''className'', ''text-[#c9d1d9]'')]
                              [ Text ''(['' ],
                            Element ''span'' [(''className'', ''text-[#a5d6ff]'')]
                              [ Text ''1'' ],
                            Element ''span'' [(''className'', ''text-[#c9d1d9]'')]
                              [ Text '','' ],
                            Text '' '',
                            Element ''span'' [(''className'', ''text-[#a5d6ff]'')]
                              [ Text ''2'' ],
                            Element ''span'' [(''className'', ''text-[#c9d1d9]'')]
                              [ Text '','' ],
                            Text '' '',
                            Element ''span'' [(''className'', ''text-[#a5d6ff]'')]
                              [ Text ''3'' ],
                            Element ''span'' [(''className'', ''text-[#c9d1d9]'')]
                              [ Text '','' ],
                            Text '' '',
                            Element ''span'' [(''className'', ''text-[#a5d6ff]'')]
                              [ Text ''4'' ],
                            Element ''span'' [(''className'', ''text-[#c9d1d9]'')]
                              [ Text ''])'' ],
                            Text [CHR 0x0A],
                            Element ''span'' [(''className'', ''text-[#c9d1d9]'')]
                              [ Text ''    '' ],
                            Element ''span'' [(''className'', ''text-[#ffa657]'')]
                              [ Text ''feedback'' ],
                            Text '' '',
                            Element ''span'' [(''className'', ''text-[#ff7b72]'')]
                              [ Text ''='' ],
                            Text '' '',
                            Element ''span'' [(''className'', ''text-[#d2a8ff]'')]
                              [ Text ''check_correctness'' ],
                            Element ''span'' [(''className'', ''text-[#c9d1d9]'')]
                              [ Text ''('' ],
                            Element ''span'' [(''className'', ''text-[#ffa657]'')]
                              [ Text ''output'' ],
                            Element ''span'' [(''className'', ''text-[#c9d1d9]'')]
                              [ Text '')'' ],
                            Text [CHR 0x0A],
                            Element ''span'' [(''className'', ''text-[#c9d1d9]'')]
                              [ Text ''    '' ],
                            Text [CHR 0x0A],
                            Element ''span'' [(''className'', ''text-[#c9d1d9]'')]
                              [ Text ''    '' ],
                            Element ''span'' [(''className'', ''text-[#ffa657]'')]
                              [ Text ''optimizer'' ],
                            Element ''span'' [(''className'', ''text-[#c9d1d9]'')]
                              [ Text ''.'' ],
                            Element ''span'' [(''className'', ''text-[#d2a8ff]'')]
                              [ Text ''zero_feedback'' ],
                            Element ''span'' [(''className'', ''text-[#c9d1d9]'')]
                              [ Text ''()'' ],
                            Text [CHR 0x0A],
                            Element ''span'' [(''className'', ''text-[#c9d1d9]'')]
                              [ Text ''    '' ],
                            Element ''span'' [(''className'', ''text-[#ffa657]'')]
                              [ Text ''optimizer'' ],
                            Element ''span'' [(''className'', ''text-[#c9d1d9]'')]
                              [ Text ''.'' ],
                            Element ''span'' [(''className'', ''text-[#d2a8ff]'')]
                              [ Text ''backward'' ],
                            Element ''span'' [(''className'', ''text-[#c9d1d9]'')]
                              [ Text ''('' ],
                            Element ''span'' [(''className'', ''text-[#ffa657]'')]
                              [ Text ''output'' ],
                            Element ''span'' [(''className'', ''text-[#c9d1d9]'')]
                              [ Text '','' ],
                            Text '' '',
                            Element ''span'' [(''className'', ''text-[#ffa657]'')]
                              [ Text ''feedback'' ],
                            Element ''span'' [(''className'', ''text-[#c9d1d9]'')]
                              [ Text '')'' ],
                            Text [CHR 0x0A],
                            Element ''span'' [(''className'', ''text-[#c9d1d9]'')]
                              [ Text ''    '' ],
                            Element ''span'' [(''className'', ''text-[#ffa657]'')]
                              [ Text ''optimizer'' ],
                            Element ''span'' [(''className'', ''text-[#c9d1d9]'')]
                              [ Text ''.'' ],
                            Element ''span'' [(''className'', ''text-[#d2a8ff]'')]
                              [ Text ''step'' ],
                            Element ''span'' [(''className'', ''text-[#c9d1d9]'')]
                              [ Text ''()'' ],
                            Text ''  '',
                            Element ''span'' [(''className'', ''text-[#8b949e]'')]
                              [ Text ''# LLM updates the function!'' ] ] ] ] ] ],
        Element ''section''
          [(''className'', ''border-t border-fd-border bg-fd-muted/20 px-4 py-20'')]
          [ Element ''div'' [(''className'', ''mx-auto max-w-6xl'')]
              [ Element ''div'' [(''className'', ''text-center mb-16'')]
                  [ Element ''h2'' [(''className'', ''text-3xl font-bold mb-4'')]
                      [ Text ''Why Trace2?'' ],
                    Element ''p'' [(''className'', ''text-fd-muted-foreground text-lg'')]
                      [ Text ''A new paradigm for training AI systems end-to-end'' ] ],
                Element ''div'' [(''className'', ''grid gap-8 md:grid-cols-2 lg:grid-cols-3'')]
                  [ Element ''div''
                      [(''className'', ''rounded-lg border border-fd-border bg-fd-card p-6 shadow-sm hover:shadow-lg transition-shadow'')]
                      [ Element ''div''
                          [(''className'', ''mb-4 inline-flex h-12 w-12 items-center justify-center rounded-lg bg-fd-primary/10'')]
                          [ Component ''GitBranch'' [(''className'', ''h-6 w-6 text-fd-primary'')] [] ],
                        Element ''h3'' [(''className'', ''mb-2 text-xl font-semibold'')]
                          [ Text ''Computation Graph'' ],
                        Element ''p'' [(''className'', ''text-fd-muted-foreground'')]
                          [ Text ''Automatically traces execution to build a computation graph, just like autograd but for AI agents.'' ] ],
                    Element ''div''
                      [(''className'', ''rounded-lg border border-fd-border bg-fd-card p-6 shadow-sm hover:shadow-lg transition-shadow'')]
                      [ Element ''div''
                          [(''className'', ''mb-4 inline-flex h-12 w-12 items-center justify-center rounded-lg bg-fd-primary/10'')]
                          [ Component ''Code2'' [(''className'', ''h-6 w-6 text-fd-primary'')] [] ],
                        Element ''h3'' [(''className'', ''mb-2 text-xl font-semibold'')]
                          [ Text ''Write Real Code'' ],
                        Element ''p'' [(''className'', ''text-fd-muted-foreground'')]
                          [ Text ''No need to wrap functions in strings. Write actual executable Python code with full IDE support.'' ] ],
                    Element ''div''
                      [(''className'', ''rounded-lg border border-fd-border bg-fd-card p-6 shadow-sm hover:shadow-lg transition-shadow'')]
                      [ Element ''div''
                          [(''className'', ''mb-4 inline-flex h-12 w-12 items-center justify-center rounded-lg bg-fd-primary/10'')]
                          [ Component ''Zap'' [(''className'', ''h-6 w-6 text-fd-primary'')] [] ],
                        Element ''h3'' [(''className'', ''mb-2 text-xl font-semibold'')]
                          [ Text ''Multiple Optimizers'' ],
                        Element ''p'' [(''className'', ''text-fd-muted-foreground'')]
                          [ Text ''Choose from OptoPrime, OPRO, or TextGrad. Switch optimizers with a single line of code.'' ] ],
                    Element ''div''
                      [(''className'', ''rounded-lg border border-fd-border bg-fd-card p-6 shadow-sm hover:shadow-lg transition-shadow'')]
                      [ Element ''div''
                          [(''className'', ''mb-4 inline-flex h-12 w-12 items-center justify-center rounded-lg bg-fd-primary/10'')]
                          [ Component ''BookOpen'' [(''className'', ''h-6 w-6 text-fd-primary'')] [] ],
                        Element ''h3'' [(''className'', ''mb-2 text-xl font-semibold'')]
                          [ Text ''Rich Feedback'' ],
                        Element ''p'' [(''className'', ''text-fd-muted-foreground'')]
                          [ Text ''Use any feedback: numerical rewards, natural language, compiler errors, or test results.'' ] ],
                    Element ''div''
                      [(''className'', ''rounded-lg border border-fd-border bg-fd-card p-6 shadow-sm hover:shadow-lg transition-shadow'')]
                      [ Element ''div''
                          [(''className'', ''mb-4 inline-flex h-12 w-12 items-center justify-center rounded-lg bg-fd-primary/10'')]
                          [ Component ''Sparkles'' [(''className'', ''h-6 w-6 text-fd-primary'')] [] ],
                        Element ''h3'' [(''className'', ''mb-2 text-xl font-semibold'')]
                          [ Text ''LLM Backend Agnostic'' ],
                        Element ''p'' [(''className'', ''text-fd-muted-foreground'')]
                          [ Text ''Works with OpenAI, Anthropic, or any LiteLLM-supported provider. Easy API key management.'' ] ],
                    Element ''div''
                      [(''className'', ''rounded-lg border border-fd-border bg-fd-card p-6 shadow-sm hover:shadow-lg transition-shadow'')]
                      [ Element ''div''
                          [(''className'', ''mb-4 inline-flex h-12 w-12 items-center justify-center rounded-lg bg-fd-primary/10'')]
                          [ Component ''Github'' [(''className'', ''h-6 w-6 text-fd-primary'')] [] ],
                        Element ''h3'' [(''className'', ''mb-2 text-xl font-semibold'')]
                          [ Text ''Research-Backed'' ],
                        Element ''p'' [(''className'', ''text-fd-muted-foreground'')]
                          [ Text ''Published at NeurIPS 2024. Battle-tested on NLP, robotics, and multi-agent tasks.'' ] ] ] ] ],
        Element ''section''
          [(''className'', ''border-t border-fd-border bg-fd-background px-4 py-20'')]
          [ Element ''div'' [(''className'', ''mx-auto max-w-4xl text-center'')]
              [ Element ''h2'' [(''className'', ''text-3xl font-bold mb-6'')]
                  [ Text ''Ready to optimize your AI agents?'' ],
                Element ''p'' [(''className'', ''text-fd-muted-foreground text-lg mb-8'')]
                  [ Text ''Install Trace2 and start building self-improving AI systems in minutes.'' ],
                Element ''div''
                  [(''className'', ''mb-8 rounded-lg border border-fd-border bg-fd-muted/50 p-4 font-mono text-sm'')]
                  [ Text ''pip install trace-opt'' ],
                Element ''div''
                  [(''className'', ''flex flex-col gap-4 sm:flex-row sm:justify-center'')]
                  [ Component ''Link''
                      [(''href'', ''/docs/getting-started/installation''),
                       (''className'', ''inline-flex items-center justify-center gap-2 rounded-lg bg-fd-primary px-6 py-3 text-fd-primary-foreground font-semibold hover:bg-fd-primary/90 transition-all'')]
                      [ Text ''Read the Docs'',
                        Component ''ArrowRight'' [(''className'', ''h-4 w-4'')] [] ],
                    Component ''Link''
                      [(''href'', ''/docs/examples''),
                       (''className'', ''inline-flex items-center justify-center gap-2 rounded-lg border border-fd-border px-6 py-3 font-semibold hover:bg-fd-muted/50 transition-all'')]
                      [ Text ''View Examples'' ] ] ] ] ],
    s)"

subsection \<open>The operations of the repository\<close>

datatype operation = Call_baseOptions | Render_HomePage | Render_HomePage_rev | Run_setup env

fun apply_op :: "operation \<Rightarrow> system \<Rightarrow> system" where
  "apply_op Call_baseOptions s = snd (baseOptions s)"
| "apply_op Render_HomePage s = snd (HomePage s)"
| "apply_op Render_HomePage_rev s = snd (HomePage_rev s)"
| "apply_op (Run_setup e) s =
     (let r = setup_sh e (disk s) in s\<lparr>disk := fs r, console := console s @ stdout r\<rparr>)"

definition run_ops :: "operation list \<Rightarrow> system \<Rightarrow> system" where
  "run_ops ops s = fold apply_op ops s"

definition boot :: system where
  "boot = \<lparr>configs = [], disk = checkout, console = []\<rparr>"

subsection \<open>Rendering\<close>

text \<open>
  The rendering framework is not part of the repository. It is a parameter: how it
  writes a host element and an imported component around the markup of their children
  (\<open>None\<close> when that throws), and how it writes a text.
\<close>

record framework =
  host :: "string \<Rightarrow> (string \<times> string) list \<Rightarrow> string \<Rightarrow> string option"
  component :: "string \<Rightarrow> (string \<times> string) list \<Rightarrow> string \<Rightarrow> string option"
  text_markup :: "string \<Rightarrow> string"

fun render :: "framework \<Rightarrow> node \<Rightarrow> string option"
  and render_all :: "framework \<Rightarrow> node list \<Rightarrow> string option" where
  "render fw (Text t) = Some (text_markup fw t)"
| "render fw (Element tag props kids) =
     (case render_all fw kids of None \<Rightarrow> None | Some inner \<Rightarrow> host fw tag props inner)"
| "render fw (Component name props kids) =
     (case render_all fw kids of None \<Rightarrow> None | Some inner \<Rightarrow> component fw name props inner)"
| "render fw (Fragment kids) = render_all fw kids"
| "render_all fw [] = Some []"
| "render_all fw (k # ks) =
     (case render fw k of
        None \<Rightarrow> None
      | Some a \<Rightarrow> (case render_all fw ks of None \<Rightarrow> None | Some b \<Rightarrow> Some (a @ b)))"














section \<open>Properties of the setup script\<close>

lemmas sh_defs = setup_sh_def simple_def if_then_def if_then_else_def skip_def
  record_cmd_def start_def exit_status_def commands_run_def

subsection \<open>What a run executes, in closed form\<close>

text \<open>
  The script has seventeen runs: one without \<^verbatim>\<open>package.json\<close>, and with it one for each
  answer to whether \<^verbatim>\<open>../Trace\<close> is a directory, which installer is selected, and how
  far the run gets (the installer fails, the first or the second \<^verbatim>\<open>chmod\<close> fails, or
  all succeed). Each is a symbolic run of \<open>setup_sh\<close>.
\<close>

lemma chmod_x_ok:
  "chmod_ok e f p \<Longrightarrow> chmod_x e p f = (0, f(p \<mapsto> set_executable (the (f p))))"
  by (auto simp: chmod_ok_def chmod_x_def present_def)

lemma chmod_x_fail: "\<not> chmod_ok e f p \<Longrightarrow> chmod_x e p f = (1, f)"
  by (auto simp: chmod_ok_def chmod_x_def present_def split: option.splits)

lemma chmod_ok_upd: "q \<noteq> p \<Longrightarrow> chmod_ok e (f(p \<mapsto> x)) q = chmod_ok e f q"
  by (simp add: chmod_ok_def present_def)

lemmas run_simps = sh_defs install_status_def install_cmd_def chmod_x_fail chmod_x_ok chmod_ok_upd
  closing_lines_def

lemma setup_closed:
  fixes e f
  defines "r \<equiv> setup_sh e f"
  defines "ok1 \<equiv> chmod_ok e f ''scripts/generate_api_docs.py''"
  defines "ok2 \<equiv> chmod_ok e f ''scripts/convert_notebooks.py''"
  shows "exit_status r =
     (if \<not> is_file f ''package.json'' then 1
      else if install_status e \<noteq> 0 then install_status e
      else if \<not> ok1 then 1
      else if \<not> ok2 then 1
      else 0)
  \<and> stdout r = [msg_banner, ''''] @
     (if \<not> is_file f ''package.json'' then [msg_error]
      else (if is_dir f ''../Trace'' then [] else [msg_warning, msg_warning2, '''']) @
           [msg_installing] @
           (if install_status e \<noteq> 0 then []
            else msg_chmod # (if ok1 \<and> ok2 then closing_lines else [])))
  \<and> executed r =
     [(Set_e, Statement, 0), (Echo msg_banner, Statement, 0), (Echo '''', Statement, 0)] @
     (if \<not> is_file f ''package.json''
      then [(Test_not_f ''package.json'', Condition, 0), (Echo msg_error, Statement, 0),
            (Exit 1, Statement, 1)]
      else [(Test_not_f ''package.json'', Condition, 1)] @
           (if is_dir f ''../Trace'' then [(Test_not_d ''../Trace'', Condition, 1)]
            else [(Test_not_d ''../Trace'', Condition, 0), (Echo msg_warning, Statement, 0),
                  (Echo msg_warning2, Statement, 0), (Echo '''', Statement, 0)]) @
           [(Echo msg_installing, Statement, 0),
            (Command_v ''yarn'', Condition, if resolvable e ''yarn'' then 0 else 1),
            (install_cmd e, Statement, install_status e)] @
           (if install_status e \<noteq> 0 then []
            else [(Echo msg_chmod, Statement, 0),
                  (Chmod_x ''scripts/generate_api_docs.py'', Statement, if ok1 then 0 else 1)] @
                 (if \<not> ok1 then []
                  else (Chmod_x ''scripts/convert_notebooks.py'', Statement, if ok2 then 0 else 1) #
                       (if \<not> ok2 then []
                        else map (\<lambda>t. (Echo t, Statement, 0)) closing_lines))))
  \<and> fs r =
     (if is_file f ''package.json'' \<and> install_status e = 0 \<and> ok1
      then if ok2
           then f(''scripts/generate_api_docs.py'' \<mapsto>
                    set_executable (the (f ''scripts/generate_api_docs.py'')),
                  ''scripts/convert_notebooks.py'' \<mapsto>
                    set_executable (the (f ''scripts/convert_notebooks.py'')))
           else f(''scripts/generate_api_docs.py'' \<mapsto>
                    set_executable (the (f ''scripts/generate_api_docs.py'')))
      else f)
  \<and> errexit r"
proof (cases "is_file f ''package.json''")
  case False
  then show ?thesis unfolding r_def ok1_def ok2_def by (simp add: sh_defs)
next
  case pj: True
  show ?thesis
  proof (cases "install_status e = 0")
    case False
    with pj show ?thesis unfolding r_def ok1_def ok2_def
      by (cases "is_dir f ''../Trace''"; cases "resolvable e ''yarn''")
         (simp_all add: run_simps)
  next
    case inst: True
    show ?thesis
    proof (cases "chmod_ok e f ''scripts/generate_api_docs.py''")
      case False
      with pj inst show ?thesis unfolding r_def ok1_def ok2_def
        by (cases "is_dir f ''../Trace''"; cases "resolvable e ''yarn''")
           (simp_all add: run_simps)
    next
      case ok1: True
      show ?thesis
      proof (cases "chmod_ok e f ''scripts/convert_notebooks.py''")
        case False
        with pj inst ok1 show ?thesis unfolding r_def ok1_def ok2_def
          by (cases "is_dir f ''../Trace''"; cases "resolvable e ''yarn''")
             (simp_all add: run_simps)
      next
        case True
        with pj inst ok1 show ?thesis unfolding r_def ok1_def ok2_def
          by (cases "is_dir f ''../Trace''"; cases "resolvable e ''yarn''")
             (simp_all add: run_simps chmod_ok_def present_def)
      qed
    qed
  qed
qed

lemmas exit_status_closed = setup_closed [THEN conjunct1]
lemmas stdout_closed = setup_closed [THEN conjunct2, THEN conjunct1]
lemmas executed_closed = setup_closed [THEN conjunct2, THEN conjunct2, THEN conjunct1]
lemmas fs_closed = setup_closed [THEN conjunct2, THEN conjunct2, THEN conjunct2, THEN conjunct1]
lemmas errexit_closed = setup_closed [THEN conjunct2, THEN conjunct2, THEN conjunct2, THEN conjunct2]

lemmas msg_defs = msg_banner_def msg_error_def msg_warning_def msg_warning2_def msg_installing_def
  msg_chmod_def msg_complete_def msg_commands_def msg_dev_def msg_build_def msg_generate_api_def
  msg_convert_notebooks_def msg_generate_all_def msg_ready_def

text \<open>
  C1. Started where \<^verbatim>\<open>package.json\<close> is not a regular file, the script prints the
  banner, an empty line and the error message, and exits with status 1. The commands it
  has run are exactly the banner, the test, the error message and \<^verbatim>\<open>exit 1\<close>: the
  \<^verbatim>\<open>../Trace\<close> test, the installers and \<^verbatim>\<open>chmod\<close> never run.
\<close>

theorem setup_without_package_json:
  assumes "\<not> is_file f ''package.json''"
  shows "stdout (setup_sh e f) = [msg_banner, '''', msg_error]
       \<and> exit_status (setup_sh e f) = 1
       \<and> commands_run (setup_sh e f) =
           [Set_e, Echo msg_banner, Echo '''', Test_not_f ''package.json'',
            Echo msg_error, Exit 1]"
  using assms by (simp add: sh_defs)

theorem setup_without_package_json_witness:
  "\<not> is_file Map.empty ''package.json''
   \<and> stdout (setup_sh npm_machine Map.empty) = [msg_banner, '''', msg_error]
   \<and> exit_status (setup_sh npm_machine Map.empty) = 1
   \<and> commands_run (setup_sh npm_machine Map.empty) =
       [Set_e, Echo msg_banner, Echo '''', Test_not_f ''package.json'',
        Echo msg_error, Exit 1]"
  using setup_without_package_json [of Map.empty npm_machine]
  by (simp add: is_file_def)

text \<open>
  C2. Started where \<^verbatim>\<open>package.json\<close> is a regular file, the script does not print the
  error message and does not run \<^verbatim>\<open>exit 1\<close>, and it runs the selected installer. When
  the installer and both \<^verbatim>\<open>chmod\<close> commands succeed, the run ends with the installer,
  the two \<^verbatim>\<open>chmod\<close> commands and the closing lines, both helper scripts are executable
  afterwards, and the exit status is 0.
\<close>

theorem setup_with_package_json:
  assumes "is_file f ''package.json''"
  shows "msg_error \<notin> set (stdout (setup_sh e f))
       \<and> Exit 1 \<notin> set (commands_run (setup_sh e f))
       \<and> (install_cmd e, Statement, install_status e) \<in> set (executed (setup_sh e f))
       \<and> (install_status e = 0
            \<and> chmod_ok e f ''scripts/generate_api_docs.py''
            \<and> chmod_ok e f ''scripts/convert_notebooks.py'' \<longrightarrow>
            exit_status (setup_sh e f) = 0
          \<and> suffix ([install_cmd e, Echo msg_chmod, Chmod_x ''scripts/generate_api_docs.py'',
                      Chmod_x ''scripts/convert_notebooks.py''] @ map Echo closing_lines)
               (commands_run (setup_sh e f))
          \<and> fs (setup_sh e f) ''scripts/generate_api_docs.py''
              = map_option set_executable (f ''scripts/generate_api_docs.py'')
          \<and> fs (setup_sh e f) ''scripts/convert_notebooks.py''
              = map_option set_executable (f ''scripts/convert_notebooks.py''))"
proof -
  have "msg_error \<notin> set (stdout (setup_sh e f))"
    using assms by (simp add: stdout_closed closing_lines_def) (simp add: msg_defs)
  moreover have "Exit 1 \<notin> set (commands_run (setup_sh e f))"
    using assms by (auto simp: commands_run_def executed_closed install_cmd_def closing_lines_def)
  moreover have "(install_cmd e, Statement, install_status e) \<in> set (executed (setup_sh e f))"
    using assms by (simp add: executed_closed)
  moreover have "exit_status (setup_sh e f) = 0
          \<and> suffix ([install_cmd e, Echo msg_chmod, Chmod_x ''scripts/generate_api_docs.py'',
                      Chmod_x ''scripts/convert_notebooks.py''] @ map Echo closing_lines)
               (commands_run (setup_sh e f))
          \<and> fs (setup_sh e f) ''scripts/generate_api_docs.py''
              = map_option set_executable (f ''scripts/generate_api_docs.py'')
          \<and> fs (setup_sh e f) ''scripts/convert_notebooks.py''
              = map_option set_executable (f ''scripts/convert_notebooks.py'')"
    if "install_status e = 0" "chmod_ok e f ''scripts/generate_api_docs.py''"
       "chmod_ok e f ''scripts/convert_notebooks.py''"
  proof -
    have "suffix ([install_cmd e, Echo msg_chmod, Chmod_x ''scripts/generate_api_docs.py'',
                      Chmod_x ''scripts/convert_notebooks.py''] @ map Echo closing_lines)
               (commands_run (setup_sh e f))"
      using assms that unfolding suffix_def commands_run_def executed_closed
      by (simp add: comp_def)
    moreover have "fs (setup_sh e f) ''scripts/generate_api_docs.py''
              = map_option set_executable (f ''scripts/generate_api_docs.py'')"
       "fs (setup_sh e f) ''scripts/convert_notebooks.py''
              = map_option set_executable (f ''scripts/convert_notebooks.py'')"
      using assms that by (auto simp: fs_closed chmod_ok_def present_def)
    ultimately show ?thesis using assms that by (simp add: exit_status_closed)
  qed
  ultimately show ?thesis by blast
qed

theorem setup_with_package_json_witness:
  "is_file checkout ''package.json''
   \<and> install_status npm_machine = 0
   \<and> chmod_ok npm_machine checkout ''scripts/generate_api_docs.py''
   \<and> chmod_ok npm_machine checkout ''scripts/convert_notebooks.py''
   \<and> msg_error \<notin> set (stdout (setup_sh npm_machine checkout))
   \<and> Exit 1 \<notin> set (commands_run (setup_sh npm_machine checkout))
   \<and> (Npm_install, Statement, 0) \<in> set (executed (setup_sh npm_machine checkout))
   \<and> exit_status (setup_sh npm_machine checkout) = 0
   \<and> suffix ([Npm_install, Echo msg_chmod, Chmod_x ''scripts/generate_api_docs.py'',
               Chmod_x ''scripts/convert_notebooks.py''] @ map Echo closing_lines)
        (commands_run (setup_sh npm_machine checkout))
   \<and> fs (setup_sh npm_machine checkout) ''scripts/generate_api_docs.py'' = Some (File True)
   \<and> fs (setup_sh npm_machine checkout) ''scripts/convert_notebooks.py'' = Some (File True)"
proof -
  have pj: "is_file checkout ''package.json''"
    by (simp add: is_file_def checkout_def)
  have inst: "install_status npm_machine = 0" "install_cmd npm_machine = Npm_install"
    by (simp_all add: install_status_def install_cmd_def npm_machine_def)
  have ok: "chmod_ok npm_machine checkout ''scripts/generate_api_docs.py''"
    "chmod_ok npm_machine checkout ''scripts/convert_notebooks.py''"
    by (simp_all add: chmod_ok_def present_def checkout_def npm_machine_def)
  have files: "checkout ''scripts/generate_api_docs.py'' = Some (File False)"
    "checkout ''scripts/convert_notebooks.py'' = Some (File False)"
    by (simp_all add: checkout_def)
  from setup_with_package_json [OF pj, of npm_machine] pj inst ok files
  show ?thesis by (simp add: set_executable_def)
qed

subsection \<open>The \<^verbatim>\<open>../Trace\<close> check\<close>

lemma is_file_trace:
  "is_file (f(''../Trace'' := k)) ''package.json'' = is_file f ''package.json''"
  by (simp add: is_file_def)

lemma chmod_ok_trace:
  "chmod_ok e (f(''../Trace'' := k)) ''scripts/generate_api_docs.py''
     = chmod_ok e f ''scripts/generate_api_docs.py''"
  "chmod_ok e (f(''../Trace'' := k)) ''scripts/convert_notebooks.py''
     = chmod_ok e f ''scripts/convert_notebooks.py''"
  by (simp_all add: chmod_ok_def present_def)

text \<open>
  C5. A missing \<^verbatim>\<open>../Trace\<close> is no error. With \<^verbatim>\<open>package.json\<close> present and
  \<^verbatim>\<open>../Trace\<close> not a directory, the script prints the three warning lines and goes on
  to the installation: its output and its commands begin as listed, up to the
  installer. Whatever stands at \<^verbatim>\<open>../Trace\<close> (nothing, a directory, a file), the exit
  status is the same. A non-zero exit status has one of two causes only: the missing
  \<^verbatim>\<open>package.json\<close>, with status 1, or an installer or a \<^verbatim>\<open>chmod\<close> that failed as
  the last command run, whose status the script ends with.
\<close>

theorem missing_trace_only_warns:
  "(is_file f ''package.json'' \<and> \<not> is_dir f ''../Trace'' \<longrightarrow>
      prefix [msg_banner, '''', msg_warning, msg_warning2, '''', msg_installing]
        (stdout (setup_sh e f))
    \<and> prefix [Set_e, Echo msg_banner, Echo '''', Test_not_f ''package.json'',
               Test_not_d ''../Trace'', Echo msg_warning, Echo msg_warning2, Echo '''',
               Echo msg_installing, Command_v ''yarn'', install_cmd e]
        (commands_run (setup_sh e f)))
   \<and> exit_status (setup_sh e (f(''../Trace'' := k))) = exit_status (setup_sh e f)
   \<and> (exit_status (setup_sh e f) \<noteq> 0 \<longrightarrow>
        (\<not> is_file f ''package.json'' \<and> exit_status (setup_sh e f) = 1)
      \<or> (\<exists>c. c \<in> set [Yarn_install, Npm_install, Chmod_x ''scripts/generate_api_docs.py'',
                          Chmod_x ''scripts/convert_notebooks.py'']
             \<and> last (executed (setup_sh e f)) = (c, Statement, exit_status (setup_sh e f))))"
proof -
  have "exit_status (setup_sh e (f(''../Trace'' := k))) = exit_status (setup_sh e f)"
    by (simp only: exit_status_closed is_file_trace chmod_ok_trace)
  moreover have "prefix [msg_banner, '''', msg_warning, msg_warning2, '''', msg_installing]
        (stdout (setup_sh e f))
    \<and> prefix [Set_e, Echo msg_banner, Echo '''', Test_not_f ''package.json'',
               Test_not_d ''../Trace'', Echo msg_warning, Echo msg_warning2, Echo '''',
               Echo msg_installing, Command_v ''yarn'', install_cmd e]
        (commands_run (setup_sh e f))"
    if "is_file f ''package.json''" "\<not> is_dir f ''../Trace''"
    using that by (simp add: stdout_closed executed_closed commands_run_def)
  moreover have "(\<not> is_file f ''package.json'' \<and> exit_status (setup_sh e f) = 1)
      \<or> (\<exists>c. c \<in> set [Yarn_install, Npm_install, Chmod_x ''scripts/generate_api_docs.py'',
                          Chmod_x ''scripts/convert_notebooks.py'']
             \<and> last (executed (setup_sh e f)) = (c, Statement, exit_status (setup_sh e f)))"
    if "exit_status (setup_sh e f) \<noteq> 0"
    using that
    by (cases "is_file f ''package.json''")
       (auto simp: exit_status_closed executed_closed install_cmd_def split: if_splits)
  ultimately show ?thesis by blast
qed

theorem missing_trace_only_warns_witness:
  "is_file checkout ''package.json'' \<and> \<not> is_dir checkout ''../Trace''
   \<and> prefix [msg_banner, '''', msg_warning, msg_warning2, '''', msg_installing]
        (stdout (setup_sh npm_machine checkout))
   \<and> prefix [Set_e, Echo msg_banner, Echo '''', Test_not_f ''package.json'',
              Test_not_d ''../Trace'', Echo msg_warning, Echo msg_warning2, Echo '''',
              Echo msg_installing, Command_v ''yarn'', Npm_install]
        (commands_run (setup_sh npm_machine checkout))
   \<and> exit_status (setup_sh npm_machine (checkout(''../Trace'' := Some Dir)))
       = exit_status (setup_sh npm_machine checkout)
   \<and> exit_status (setup_sh npm_machine partial_checkout) \<noteq> 0
   \<and> last (executed (setup_sh npm_machine partial_checkout))
       = (Chmod_x ''scripts/convert_notebooks.py'', Statement,
          exit_status (setup_sh npm_machine partial_checkout))"
proof -
  have pj: "is_file checkout ''package.json''" "\<not> is_dir checkout ''../Trace''"
    by (simp_all add: is_file_def is_dir_def checkout_def)
  have inst: "install_cmd npm_machine = Npm_install"
    by (simp add: install_cmd_def npm_machine_def)
  have partial: "exit_status (setup_sh npm_machine partial_checkout) = 1"
    "last (executed (setup_sh npm_machine partial_checkout))
       = (Chmod_x ''scripts/convert_notebooks.py'', Statement, 1)"
    by (simp_all add: exit_status_closed executed_closed is_file_def is_dir_def chmod_ok_def
          present_def install_status_def install_cmd_def partial_checkout_def npm_machine_def)
  from missing_trace_only_warns [of checkout npm_machine "Some Dir"] pj inst partial
  show ?thesis by simp
qed

subsection \<open>\<^verbatim>\<open>set -e\<close>\<close>

text \<open>
  C6, as amended. The script runs with \<^verbatim>\<open>errexit\<close> on, and the first command that
  stands as a statement and exits with a non-zero status is the last command of the
  whole run: no command of any kind, statement or condition, runs after it, and the
  script ends with a non-zero status. The condition of an \<^verbatim>\<open>if\<close> is exempt: it may exit
  non-zero and the script goes on.
\<close>

theorem errexit_stops_at_first_failed_statement:
  "errexit (setup_sh e f)
   \<and> stops_at_first_failed_statement (executed (setup_sh e f)) (exit_status (setup_sh e f))"
proof -
  have "stops_at_first_failed_statement (executed (setup_sh e f))
          (exit_status (setup_sh e f))"
    by (cases "is_file f ''package.json''"; cases "is_dir f ''../Trace''";
        cases "install_status e = 0"; cases "chmod_ok e f ''scripts/generate_api_docs.py''";
        cases "chmod_ok e f ''scripts/convert_notebooks.py''")
       (simp_all add: executed_closed exit_status_closed closing_lines_def)
  then show ?thesis by (simp add: errexit_closed)
qed

theorem errexit_stops_at_first_failed_statement_witness:
  "errexit (setup_sh npm_machine partial_checkout)
   \<and> stops_at_first_failed_statement (executed (setup_sh npm_machine partial_checkout))
        (exit_status (setup_sh npm_machine partial_checkout))
   \<and> last (executed (setup_sh npm_machine partial_checkout))
       = (Chmod_x ''scripts/convert_notebooks.py'', Statement, 1)
   \<and> exit_status (setup_sh npm_machine partial_checkout) = 1"
  using errexit_stops_at_first_failed_statement [of npm_machine partial_checkout]
  by (simp add: exit_status_closed executed_closed is_file_def is_dir_def chmod_ok_def
        present_def install_status_def install_cmd_def partial_checkout_def npm_machine_def)

text \<open>
  C6 as stated, over every command, fails: on a machine without \<^verbatim>\<open>yarn\<close>, in a checkout
  with both helper scripts, \<^verbatim>\<open>[ ! -f "package.json" ]\<close> exits with status 1 (and so does
  \<^verbatim>\<open>command -v yarn\<close> later), yet the script runs on to its last line and exits
  with status 0.
\<close>

theorem errexit_every_command_counterexample:
  "(Test_not_f ''package.json'', Condition, 1) \<in> set (executed (setup_sh npm_machine checkout))
   \<and> (Command_v ''yarn'', Condition, 1) \<in> set (executed (setup_sh npm_machine checkout))
   \<and> last (executed (setup_sh npm_machine checkout)) = (Echo msg_ready, Statement, 0)
   \<and> exit_status (setup_sh npm_machine checkout) = 0
   \<and> \<not> stops_at_first_failure (executed (setup_sh npm_machine checkout))
          (exit_status (setup_sh npm_machine checkout))"
  by (simp add: executed_closed exit_status_closed is_file_def is_dir_def chmod_ok_def
        present_def install_status_def install_cmd_def checkout_def npm_machine_def
        closing_lines_def)

subsection \<open>The installer and the helper scripts\<close>

text \<open>
  C9. In a run that ends with status 0 exactly one installer has run, once:
  \<^verbatim>\<open>yarn install\<close> when \<^verbatim>\<open>command -v yarn\<close> succeeds, \<^verbatim>\<open>npm install\<close> otherwise.
\<close>

theorem installs_exactly_once:
  assumes "exit_status (setup_sh e f) = 0"
  shows "count_list (commands_run (setup_sh e f)) Yarn_install
           = (if resolvable e ''yarn'' then 1 else 0)
       \<and> count_list (commands_run (setup_sh e f)) Npm_install
           = (if resolvable e ''yarn'' then 0 else 1)"
proof -
  from assms have facts: "is_file f ''package.json''" "install_status e = 0"
    "chmod_ok e f ''scripts/generate_api_docs.py''"
    "chmod_ok e f ''scripts/convert_notebooks.py''"
    by (auto simp: exit_status_closed split: if_splits)
  then show ?thesis
    by (cases "is_dir f ''../Trace''")
       (simp_all add: commands_run_def executed_closed install_cmd_def closing_lines_def)
qed

theorem installs_exactly_once_witness:
  "exit_status (setup_sh npm_machine checkout) = 0
   \<and> count_list (commands_run (setup_sh npm_machine checkout)) Yarn_install = 0
   \<and> count_list (commands_run (setup_sh npm_machine checkout)) Npm_install = 1
   \<and> exit_status (setup_sh yarn_machine checkout) = 0
   \<and> count_list (commands_run (setup_sh yarn_machine checkout)) Yarn_install = 1
   \<and> count_list (commands_run (setup_sh yarn_machine checkout)) Npm_install = 0"
proof -
  have npm: "exit_status (setup_sh npm_machine checkout) = 0"
    by (simp add: exit_status_closed is_file_def chmod_ok_def
          present_def install_status_def checkout_def npm_machine_def)
  have yarn: "exit_status (setup_sh yarn_machine checkout) = 0"
    by (simp add: exit_status_closed is_file_def chmod_ok_def
          present_def install_status_def checkout_def yarn_machine_def)
  have "\<not> resolvable npm_machine ''yarn''" "resolvable yarn_machine ''yarn''"
    by (simp_all add: npm_machine_def yarn_machine_def)
  with installs_exactly_once [OF npm] installs_exactly_once [OF yarn] npm yarn
  show ?thesis by simp
qed

text \<open>
  C10. With \<^verbatim>\<open>package.json\<close> present and the installer successful, a helper script that
  does not exist makes the script exit with status 1 at the \<^verbatim>\<open>chmod\<close> of the first
  script that cannot be changed, which is the last command run, and
  the line \<^verbatim>\<open>Setup complete!\<close> is not printed. Hence an exit status 0 needs both helper
  scripts to exist.
\<close>

theorem missing_helper_script_fails:
  "(is_file f ''package.json'' \<and> install_status e = 0
      \<and> (\<not> present f ''scripts/generate_api_docs.py''
           \<or> \<not> present f ''scripts/convert_notebooks.py'') \<longrightarrow>
      exit_status (setup_sh e f) = 1
    \<and> msg_complete \<notin> set (stdout (setup_sh e f))
    \<and> last (executed (setup_sh e f))
        = (Chmod_x (if chmod_ok e f ''scripts/generate_api_docs.py''
                    then ''scripts/convert_notebooks.py''
                    else ''scripts/generate_api_docs.py''), Statement, 1))
   \<and> (exit_status (setup_sh e f) = 0 \<longrightarrow>
        present f ''scripts/generate_api_docs.py'' \<and> present f ''scripts/convert_notebooks.py'')"
proof -
  have "exit_status (setup_sh e f) = 1
    \<and> msg_complete \<notin> set (stdout (setup_sh e f))
    \<and> last (executed (setup_sh e f))
        = (Chmod_x (if chmod_ok e f ''scripts/generate_api_docs.py''
                    then ''scripts/convert_notebooks.py''
                    else ''scripts/generate_api_docs.py''), Statement, 1)"
    if pj: "is_file f ''package.json''" and inst: "install_status e = 0"
      and absent: "\<not> present f ''scripts/generate_api_docs.py''
           \<or> \<not> present f ''scripts/convert_notebooks.py''"
  proof -
    from absent have fail: "\<not> chmod_ok e f ''scripts/generate_api_docs.py''
        \<or> \<not> chmod_ok e f ''scripts/convert_notebooks.py''"
      by (auto simp: chmod_ok_def)
    have "msg_complete \<notin> set (stdout (setup_sh e f))"
      using pj inst fail by (simp add: stdout_closed) (auto simp: msg_defs)
    then show ?thesis
      using pj inst fail by (auto simp: exit_status_closed executed_closed)
  qed
  moreover have "present f ''scripts/generate_api_docs.py''
      \<and> present f ''scripts/convert_notebooks.py''"
    if "exit_status (setup_sh e f) = 0"
    using that by (auto simp: exit_status_closed chmod_ok_def split: if_splits)
  ultimately show ?thesis by blast
qed

theorem missing_helper_script_fails_witness:
  "is_file partial_checkout ''package.json'' \<and> install_status npm_machine = 0
   \<and> \<not> present partial_checkout ''scripts/convert_notebooks.py''
   \<and> exit_status (setup_sh npm_machine partial_checkout) = 1
   \<and> msg_complete \<notin> set (stdout (setup_sh npm_machine partial_checkout))
   \<and> last (executed (setup_sh npm_machine partial_checkout))
       = (Chmod_x ''scripts/convert_notebooks.py'', Statement, 1)
   \<and> exit_status (setup_sh npm_machine checkout) = 0
   \<and> present checkout ''scripts/generate_api_docs.py''
   \<and> present checkout ''scripts/convert_notebooks.py''"
proof -
  have pj: "is_file partial_checkout ''package.json''" "install_status npm_machine = 0"
    "\<not> present partial_checkout ''scripts/convert_notebooks.py''"
    "chmod_ok npm_machine partial_checkout ''scripts/generate_api_docs.py''"
    by (simp_all add: is_file_def install_status_def present_def chmod_ok_def
          partial_checkout_def npm_machine_def)
  have ok: "exit_status (setup_sh npm_machine checkout) = 0"
    by (simp add: exit_status_closed is_file_def chmod_ok_def
          present_def install_status_def checkout_def npm_machine_def)
  from missing_helper_script_fails [of partial_checkout npm_machine]
    missing_helper_script_fails [of checkout npm_machine] pj ok
  show ?thesis by simp
qed

section \<open>Properties of the components\<close>

subsection \<open>The layout options\<close>

text \<open>
  C3. In every state, the object \<^verbatim>\<open>baseOptions()\<close> returns has exactly three link
  entries, with the texts Documentation, GitHub and Paper in this order, and no entry
  has an empty \<^verbatim>\<open>text\<close> or an empty \<^verbatim>\<open>url\<close>.
\<close>

theorem base_options_links:
  "\<exists>cfg. lookup (snd (baseOptions s)) (fst (baseOptions s)) = Some cfg
     \<and> length (links cfg) = 3
     \<and> map text (links cfg) = [''Documentation'', ''GitHub'', ''Paper'']
     \<and> list_all (\<lambda>l. text l \<noteq> [] \<and> url l \<noteq> []) (links cfg)"
  by (simp add: baseOptions_def lookup_def Let_def)

lemma apply_op_keeps: "lookup s a = Some c \<Longrightarrow> lookup (apply_op x s) a = Some c"
  by (cases x)
     (auto simp: lookup_def baseOptions_def HomePage_def HomePage_rev_def Let_def nth_append
           split: if_splits)

lemma run_ops_keeps: "lookup s a = Some c \<Longrightarrow> lookup (run_ops ops s) a = Some c"
  unfolding run_ops_def
  by (induction ops arbitrary: s) (auto simp: apply_op_keeps)

text \<open>
  C7. \<^verbatim>\<open>baseOptions\<close> returns the same value in any two states (a new object each
  time, with the same contents); the call changes
  nothing but the store, to which it adds the new object behind the objects already
  there; and an object of the store keeps its value through every sequence of
  operations of the repository (calls of \<^verbatim>\<open>baseOptions\<close>, renderings of the home
  page, runs of the setup script).
\<close>

theorem base_options_pure:
  "(\<exists>v. lookup (snd (baseOptions s)) (fst (baseOptions s)) = Some v
        \<and> lookup (snd (baseOptions s')) (fst (baseOptions s')) = Some v)
   \<and> butlast (configs (snd (baseOptions s))) = configs s
   \<and> disk (snd (baseOptions s)) = disk s
   \<and> console (snd (baseOptions s)) = console s
   \<and> (lookup s a = Some c \<longrightarrow> lookup (run_ops ops s) a = Some c)"
proof -
  have "\<exists>v. lookup (snd (baseOptions s)) (fst (baseOptions s)) = Some v
        \<and> lookup (snd (baseOptions s')) (fst (baseOptions s')) = Some v"
    by (simp add: baseOptions_def lookup_def Let_def)
  moreover have "butlast (configs (snd (baseOptions s))) = configs s"
    "disk (snd (baseOptions s)) = disk s" "console (snd (baseOptions s)) = console s"
    by (simp_all add: baseOptions_def Let_def)
  ultimately show ?thesis by (simp add: run_ops_keeps)
qed

theorem base_options_pure_witness:
  "\<exists>c. lookup (snd (baseOptions boot)) 0 = Some c
     \<and> lookup (run_ops [Render_HomePage, Run_setup npm_machine, Call_baseOptions,
                         Render_HomePage_rev]
                 (snd (baseOptions boot))) 0 = Some c"
proof -
  obtain c where c: "lookup (snd (baseOptions boot)) 0 = Some c"
    by (simp add: baseOptions_def lookup_def boot_def Let_def)
  with base_options_pure [of "snd (baseOptions boot)" boot 0 c]
  show ?thesis by blast
qed

subsection \<open>The home page\<close>

text \<open>
  C8. Rendering the home page leaves the state as it was and returns the same tree in
  any two states, also after any operations of the repository; so the markup a
  framework writes for it is the same too. This holds of both texts of the component.
\<close>

theorem home_page_pure:
  "HomePage s = (fst (HomePage s'), s)
   \<and> HomePage_rev s = (fst (HomePage_rev s'), s)
   \<and> fst (HomePage (run_ops ops s)) = fst (HomePage s)
   \<and> fst (HomePage_rev (run_ops ops s)) = fst (HomePage_rev s)
   \<and> render fw (fst (HomePage s)) = render fw (fst (HomePage s'))
   \<and> render fw (fst (HomePage_rev s)) = render fw (fst (HomePage_rev s'))"
  by (simp add: HomePage_def HomePage_rev_def)

subsection \<open>Rendering the home page\<close>


















end
